theory Spec2Isabelle
  imports Main
begin

section \<open>Python values\<close>

text \<open>
  The callbacks of \<^verbatim>\<open>streamlit_app.py\<close> handle whatever \<^verbatim>\<open>json.loads\<close> returns, without
  checking its type first, so the model keeps Python's dynamic typing: one datatype of
  values, and every operation the source applies to a value raises where Python raises.
  Floats are stored and never computed with in the callbacks, so their type is left
  abstract. A \<^verbatim>\<open>str\<close> is a \<open>string\<close> (its UTF-8 bytes), a \<^verbatim>\<open>dict\<close> with string keys an
  association list read with \<open>map_of\<close>, and \<^verbatim>\<open>datetime.now()\<close> a reading of the local clock.
\<close>

type_synonym datetime = nat

typedecl pyfloat

datatype pyval =
    PNone
  | PBool bool
  | PInt int
  | PFloat pyfloat
  | PStr string
  | PList "pyval list"
  | PDict "(string \<times> pyval) list"
  | PDatetime datetime

text \<open>The exceptions that the modelled code and the calls it makes can raise.\<close>

datatype exn =
    UnicodeDecodeError
  | JSONDecodeError
  | RecursionError
  | TypeError
  | KeyError
  | IndexError
  | AttributeError
  | OSError

text \<open>\<^verbatim>\<open>except Exception\<close> catches an exception whose class derives from \<^verbatim>\<open>Exception\<close>.\<close>

fun isinstance_Exception :: "exn \<Rightarrow> bool" where
  "isinstance_Exception UnicodeDecodeError = True"
| "isinstance_Exception JSONDecodeError = True"
| "isinstance_Exception RecursionError = True"
| "isinstance_Exception TypeError = True"
| "isinstance_Exception KeyError = True"
| "isinstance_Exception IndexError = True"
| "isinstance_Exception AttributeError = True"
| "isinstance_Exception OSError = True"

subsection \<open>Operators and methods used by the callbacks\<close>

fun starts_with :: "string \<Rightarrow> string \<Rightarrow> bool" where
  "starts_with s [] = True"
| "starts_with [] (c # p) = False"
| "starts_with (d # s) (c # p) = (d = c \<and> starts_with s p)"

text \<open>\<^verbatim>\<open>sub in s\<close> for two strings: \<open>sub\<close> occurs in \<open>s\<close> as a contiguous block.\<close>

fun str_contains :: "string \<Rightarrow> string \<Rightarrow> bool" where
  "str_contains [] sub = (sub = [])"
| "str_contains (c # s) sub = (starts_with (c # s) sub \<or> str_contains s sub)"

text \<open>
  \<^verbatim>\<open>k in v\<close> with a string \<open>k\<close>: key membership in a dict, element membership in a list,
  substring test in a str, and \<^verbatim>\<open>TypeError\<close> for a value that is not iterable.
\<close>

fun py_contains :: "string \<Rightarrow> pyval \<Rightarrow> exn + bool" where
  "py_contains k (PDict kvs) = Inr (k \<in> fst ` set kvs)"
| "py_contains k (PList xs) = Inr (PStr k \<in> set xs)"
| "py_contains k (PStr s) = Inr (str_contains s k)"
| "py_contains k PNone = Inl TypeError"
| "py_contains k (PBool b) = Inl TypeError"
| "py_contains k (PInt i) = Inl TypeError"
| "py_contains k (PFloat x) = Inl TypeError"
| "py_contains k (PDatetime t) = Inl TypeError"

text \<open>\<^verbatim>\<open>v[k]\<close> with a string \<open>k\<close>: only a dict can be indexed by a string.\<close>

fun py_getitem_str :: "pyval \<Rightarrow> string \<Rightarrow> exn + pyval" where
  "py_getitem_str (PDict kvs) k =
     (case map_of kvs k of None \<Rightarrow> Inl KeyError | Some v \<Rightarrow> Inr v)"
| "py_getitem_str PNone k = Inl TypeError"
| "py_getitem_str (PBool b) k = Inl TypeError"
| "py_getitem_str (PInt i) k = Inl TypeError"
| "py_getitem_str (PFloat x) k = Inl TypeError"
| "py_getitem_str (PStr s) k = Inl TypeError"
| "py_getitem_str (PList xs) k = Inl TypeError"
| "py_getitem_str (PDatetime t) k = Inl TypeError"

text \<open>\<^verbatim>\<open>len(v)\<close>; the callback only compares it with 0.\<close>

fun py_len :: "pyval \<Rightarrow> exn + nat" where
  "py_len (PList xs) = Inr (length xs)"
| "py_len (PStr s) = Inr (length s)"
| "py_len (PDict kvs) = Inr (length (remdups (map fst kvs)))"
| "py_len PNone = Inl TypeError"
| "py_len (PBool b) = Inl TypeError"
| "py_len (PInt i) = Inl TypeError"
| "py_len (PFloat x) = Inl TypeError"
| "py_len (PDatetime t) = Inl TypeError"

text \<open>
  \<^verbatim>\<open>v[0]\<close>: the first element of a list, the first character of a str, \<^verbatim>\<open>KeyError\<close> on
  a dict (its keys are strings, never the integer 0).
\<close>

fun py_getitem_0 :: "pyval \<Rightarrow> exn + pyval" where
  "py_getitem_0 (PList []) = Inl IndexError"
| "py_getitem_0 (PList (x # xs)) = Inr x"
| "py_getitem_0 (PStr []) = Inl IndexError"
| "py_getitem_0 (PStr (c # s)) = Inr (PStr [c])"
| "py_getitem_0 (PDict kvs) = Inl KeyError"
| "py_getitem_0 PNone = Inl TypeError"
| "py_getitem_0 (PBool b) = Inl TypeError"
| "py_getitem_0 (PInt i) = Inl TypeError"
| "py_getitem_0 (PFloat x) = Inl TypeError"
| "py_getitem_0 (PDatetime t) = Inl TypeError"

text \<open>\<^verbatim>\<open>v.get(k, d)\<close>: a method of dict only; any other value has no attribute \<^verbatim>\<open>get\<close>.\<close>

fun py_get :: "pyval \<Rightarrow> string \<Rightarrow> pyval \<Rightarrow> exn + pyval" where
  "py_get (PDict kvs) k d = Inr (case map_of kvs k of None \<Rightarrow> d | Some v \<Rightarrow> v)"
| "py_get PNone k d = Inl AttributeError"
| "py_get (PBool b) k d = Inl AttributeError"
| "py_get (PInt i) k d = Inl AttributeError"
| "py_get (PFloat x) k d = Inl AttributeError"
| "py_get (PStr s) k d = Inl AttributeError"
| "py_get (PList xs) k d = Inl AttributeError"
| "py_get (PDatetime t) k d = Inl AttributeError"

section \<open>The bounded history: \<^verbatim>\<open>collections.deque(maxlen=n)\<close>\<close>

record 'a deque =
  items :: "'a list"
  maxlen :: nat

definition new_deque :: "nat \<Rightarrow> 'a deque" where
  "new_deque n = \<lparr>items = [], maxlen = n\<rparr>"

text \<open>
  \<^verbatim>\<open>append\<close> adds on the right and, when the deque has grown past \<^verbatim>\<open>maxlen\<close>, discards
  one item from the left.
\<close>

definition deque_append :: "'a deque \<Rightarrow> 'a \<Rightarrow> 'a deque" where
  "deque_append d x =
     (let xs = items d @ [x]
      in d\<lparr>items := (if maxlen d < length xs then tl xs else xs)\<rparr>)"

section \<open>Session state, configuration and effects\<close>

record mqtt_Client =
  cb_on_connect :: bool
  cb_on_disconnect :: bool
  cb_on_message :: bool
  username_pw :: "(string \<times> string) option"

record session_state =
  mqtt_connected :: bool
  latest_data :: "string \<rightharpoonup> pyval"
  history :: "(string \<rightharpoonup> pyval) deque"
  mqtt_client :: "mqtt_Client option"
  data_received :: bool

record config =
  MQTT_BROKER :: string
  MQTT_PORT :: int
  MQTT_USERNAME :: string
  MQTT_PASSWORD :: string

definition MQTT_TOPIC :: string where
  "MQTT_TOPIC = ''application/1/device/9fb27692fb0c2381/event/up''"

text \<open>What a callback does besides changing the session state, in the order it does it.\<close>

datatype effect =
    Print_connected string
  | Print_failed_rc int
  | Print_disconnected
  | Print_error exn
  | Subscribe string
  | Connect mqtt_Client string int nat
  | Loop_start
  | Loop_stop
  | Disconnect
  | St_error exn

text \<open>A call either returns a value or lets an exception escape to its caller.\<close>

datatype 'a outcome = Returns 'a | Raises exn

text \<open>
  Lines 56 to 75: the first run of the script finds no \<^verbatim>\<open>mqtt_connected\<close> key and fills
  the session state; a rerun keeps the state it finds.
\<close>

definition initial_session_state :: "datetime \<Rightarrow> session_state" where
  "initial_session_state now =
     \<lparr>mqtt_connected = False,
      latest_data =
        [''voltage'' \<mapsto> PInt 0, ''current'' \<mapsto> PInt 0, ''power'' \<mapsto> PInt 0,
         ''frequency'' \<mapsto> PInt 0, ''powerFactor'' \<mapsto> PInt 0, ''energy'' \<mapsto> PInt 0,
         ''dailyKwh'' \<mapsto> PInt 0, ''dailyCost'' \<mapsto> PInt 0,
         ''timestamp'' \<mapsto> PDatetime now, ''rssi'' \<mapsto> PInt 0, ''snr'' \<mapsto> PInt 0,
         ''devEUI'' \<mapsto> PStr ''--'', ''gateway'' \<mapsto> PStr ''--''],
      history = new_deque 100,
      mqtt_client = None,
      data_received = False\<rparr>"

definition initialize :: "datetime \<Rightarrow> session_state option \<Rightarrow> session_state" where
  "initialize now ss = (case ss of None \<Rightarrow> initial_session_state now | Some s \<Rightarrow> s)"

section \<open>Threads and \<^verbatim>\<open>st.session_state\<close>\<close>

text \<open>
  The script runs on a thread that carries the session, and there \<^verbatim>\<open>st.session_state\<close>
  is the state of that session. \<^verbatim>\<open>loop_start()\<close> of line 164 starts a thread of the MQTT
  client, which calls the callbacks registered in lines 154 to 156; that thread carries
  no session, and there every evaluation of \<^verbatim>\<open>st.session_state\<close> gives a new, empty
  state: reading an attribute of it raises \<^verbatim>\<open>AttributeError\<close>, and a value assigned to an
  attribute of it is lost with it.
\<close>

datatype thread = Script_thread | Loop_thread

section \<open>Statements that change the state and may raise\<close>

text \<open>
  A statement maps the state of the session to a result and the state it leaves. When
  a statement raises, the statements after it do not run, and what the earlier ones
  wrote stays written.
\<close>

type_synonym 'a stmt = "session_state \<Rightarrow> (exn + 'a) \<times> session_state"

definition seq :: "'a stmt \<Rightarrow> ('a \<Rightarrow> 'b stmt) \<Rightarrow> 'b stmt" where
  "seq m f s = (case m s of (Inl e, s') \<Rightarrow> (Inl e, s') | (Inr v, s') \<Rightarrow> f v s')"

definition eval :: "exn + 'a \<Rightarrow> 'a stmt" where
  "eval r s = (r, s)"

definition skip :: "unit stmt" where
  "skip s = (Inr (), s)"

text \<open>
  Reading \<^verbatim>\<open>st.session_state.latest_data\<close> or \<^verbatim>\<open>st.session_state.history\<close>: the object of
  the session on the script thread, \<^verbatim>\<open>AttributeError\<close> on the loop thread.
\<close>

definition session_attr :: "thread \<Rightarrow> unit stmt" where
  "session_attr th s =
     (case th of Script_thread \<Rightarrow> (Inr (), s) | Loop_thread \<Rightarrow> (Inl AttributeError, s))"

text \<open>The three writes on the objects that \<open>session_attr\<close> has produced.\<close>

definition store_latest :: "string \<Rightarrow> pyval \<Rightarrow> unit stmt" where
  "store_latest k v s = (Inr (), s\<lparr>latest_data := (latest_data s)(k \<mapsto> v)\<rparr>)"

definition update_latest :: "(string \<times> pyval) list \<Rightarrow> unit stmt" where
  "update_latest kvs s = (Inr (), s\<lparr>latest_data := latest_data s ++ map_of kvs\<rparr>)"

definition history_append :: "(string \<rightharpoonup> pyval) \<Rightarrow> unit stmt" where
  "history_append e s = (Inr (), s\<lparr>history := deque_append (history s) e\<rparr>)"

text \<open>
  \<^verbatim>\<open>st.session_state.latest_data[k] = v\<close>, the value \<open>v\<close> being evaluated already: the
  attribute is read, then the item is stored.
\<close>

definition set_latest :: "thread \<Rightarrow> string \<Rightarrow> pyval \<Rightarrow> unit stmt" where
  "set_latest th k v = seq (session_attr th) (\<lambda>_. store_latest k v)"

text \<open>
  \<^verbatim>\<open>st.session_state.data_received = b\<close> and \<^verbatim>\<open>st.session_state.mqtt_connected = b\<close>: an
  assignment to an attribute reaches the session on the script thread only.
\<close>

definition set_data_received :: "thread \<Rightarrow> bool \<Rightarrow> unit stmt" where
  "set_data_received th b s =
     (Inr (), case th of Script_thread \<Rightarrow> s\<lparr>data_received := b\<rparr> | Loop_thread \<Rightarrow> s)"

definition set_mqtt_connected :: "thread \<Rightarrow> bool \<Rightarrow> session_state \<Rightarrow> session_state" where
  "set_mqtt_connected th b s =
     (case th of Script_thread \<Rightarrow> s\<lparr>mqtt_connected := b\<rparr> | Loop_thread \<Rightarrow> s)"

section \<open>The MQTT callbacks\<close>

text \<open>Lines 94 to 105. The first argument is the thread on which the client calls.\<close>

definition on_connect ::
  "thread \<Rightarrow> int \<Rightarrow> session_state \<Rightarrow> session_state \<times> effect list" where
  "on_connect th rc s =
     (if rc = 0
      then (set_mqtt_connected th True s, [Subscribe MQTT_TOPIC, Print_connected MQTT_TOPIC])
      else (set_mqtt_connected th False s, [Print_failed_rc rc]))"

definition on_disconnect ::
  "thread \<Rightarrow> int \<Rightarrow> session_state \<Rightarrow> session_state \<times> effect list" where
  "on_disconnect th rc s = (set_mqtt_connected th False s, [Print_disconnected])"

text \<open>
  Lines 111 to 113, \<^verbatim>\<open># Extract device info\<close>. The right-hand side of the assignment is
  evaluated before its target.
\<close>

definition extract_device_info :: "thread \<Rightarrow> pyval \<Rightarrow> unit stmt" where
  "extract_device_info th payload =
     seq (eval (py_contains ''devEUI'' payload)) (\<lambda>present.
       if present
       then seq (eval (py_getitem_str payload ''devEUI'')) (\<lambda>v. set_latest th ''devEUI'' v)
       else skip)"

text \<open>
  Lines 115 to 120, \<^verbatim>\<open># Extract signal info\<close>. The \<^verbatim>\<open>and\<close> of line 116 evaluates its
  right operand only when the left one is true; the default of the outer \<^verbatim>\<open>get\<close> of line
  120 is evaluated before the outer call.
\<close>

definition extract_signal_info :: "thread \<Rightarrow> pyval \<Rightarrow> unit stmt" where
  "extract_signal_info th payload =
     seq (eval (py_contains ''rxInfo'' payload)) (\<lambda>present.
     seq (if present
          then seq (eval (py_getitem_str payload ''rxInfo'')) (\<lambda>rx.
               seq (eval (py_len rx)) (\<lambda>n. eval (Inr (0 < n))))
          else eval (Inr False)) (\<lambda>cond.
       if cond
       then
         seq (eval (py_getitem_str payload ''rxInfo'')) (\<lambda>rx.
         seq (eval (py_getitem_0 rx)) (\<lambda>rxInfo.
         seq (eval (py_get rxInfo ''rssi'' (PInt 0))) (\<lambda>rssi.
         seq (set_latest th ''rssi'' rssi) (\<lambda>_.
         seq (eval (py_get rxInfo ''loRaSNR'' (PInt 0))) (\<lambda>snr.
         seq (set_latest th ''snr'' snr) (\<lambda>_.
         seq (eval (py_get rxInfo ''gatewayID'' (PStr ''--''))) (\<lambda>gid.
         seq (eval (py_get rxInfo ''name'' gid)) (\<lambda>gw.
         set_latest th ''gateway'' gw))))))))
       else skip))"

text \<open>
  Lines 122 to 145, \<^verbatim>\<open># Extract object data\<close>. In a call the method is looked up before
  the arguments are evaluated, so \<^verbatim>\<open>st.session_state.latest_data\<close> is read before the
  dict passed to \<^verbatim>\<open>update\<close> is built, and \<^verbatim>\<open>st.session_state.history\<close> before the entry.
  The values of each dict are evaluated in the order written: the first dict reads the
  clock last, the entry for the history reads it again, first.
\<close>

definition extract_object_data ::
  "thread \<Rightarrow> pyval \<Rightarrow> datetime \<Rightarrow> datetime \<Rightarrow> unit stmt" where
  "extract_object_data th payload now1 now2 =
     seq (eval (py_contains ''object'' payload)) (\<lambda>present.
       if present
       then
         seq (eval (py_getitem_str payload ''object'')) (\<lambda>obj.
         seq (session_attr th) (\<lambda>_.
         seq (eval (py_get obj ''voltage'' (PInt 0))) (\<lambda>voltage.
         seq (eval (py_get obj ''current'' (PInt 0))) (\<lambda>current.
         seq (eval (py_get obj ''power'' (PInt 0))) (\<lambda>power.
         seq (eval (py_get obj ''frequency'' (PInt 0))) (\<lambda>frequency.
         seq (eval (py_get obj ''powerFactor'' (PInt 0))) (\<lambda>powerFactor.
         seq (eval (py_get obj ''energy'' (PInt 0))) (\<lambda>energy.
         seq (eval (py_get obj ''dailyKwh'' (PInt 0))) (\<lambda>dailyKwh.
         seq (eval (py_get obj ''dailyCost'' (PInt 0))) (\<lambda>dailyCost.
         seq (update_latest
               [(''voltage'', voltage), (''current'', current), (''power'', power),
                (''frequency'', frequency), (''powerFactor'', powerFactor),
                (''energy'', energy), (''dailyKwh'', dailyKwh), (''dailyCost'', dailyCost),
                (''timestamp'', PDatetime now1)]) (\<lambda>_.
         seq (session_attr th) (\<lambda>_.
         seq (eval (py_get obj ''power'' (PInt 0))) (\<lambda>h_power.
         seq (eval (py_get obj ''voltage'' (PInt 0))) (\<lambda>h_voltage.
         seq (eval (py_get obj ''current'' (PInt 0))) (\<lambda>h_current.
         seq (history_append
               [''timestamp'' \<mapsto> PDatetime now2, ''power'' \<mapsto> h_power,
                ''voltage'' \<mapsto> h_voltage, ''current'' \<mapsto> h_current]) (\<lambda>_.
         set_data_received th True))))))))))))))))
       else skip)"

text \<open>
  The body of the \<^verbatim>\<open>try\<close> of \<^verbatim>\<open>on_message\<close>, lines 109 to 145. A message is given
  by what \<^verbatim>\<open>json.loads(msg.payload.decode())\<close> makes of its payload bytes: the parsed
  value, or the exception of the decoder or of the parser.
\<close>

definition on_message_try ::
  "thread \<Rightarrow> exn + pyval \<Rightarrow> datetime \<Rightarrow> datetime \<Rightarrow> unit stmt" where
  "on_message_try th msg now1 now2 =
     seq (eval msg) (\<lambda>payload.
     seq (extract_device_info th payload) (\<lambda>_.
     seq (extract_signal_info th payload) (\<lambda>_.
     extract_object_data th payload now1 now2)))"

text \<open>Lines 107 to 148: the \<^verbatim>\<open>try\<close> with its handler, which prints the exception.\<close>

definition on_message ::
  "thread \<Rightarrow> exn + pyval \<Rightarrow> datetime \<Rightarrow> datetime \<Rightarrow> session_state
     \<Rightarrow> (session_state \<times> effect list) outcome" where
  "on_message th msg now1 now2 s =
     (case on_message_try th msg now1 now2 s of
        (Inr _, s') \<Rightarrow> Returns (s', [])
      | (Inl e, s') \<Rightarrow>
          if isinstance_Exception e then Returns (s', [Print_error e]) else Raises e)"

section \<open>Connecting\<close>

text \<open>
  Lines 151 to 170, called by the script. \<open>connect_result\<close> is what \<^verbatim>\<open>client.connect\<close> does when it is called:
  \<open>None\<close> when it returns, the exception when it raises. The truth value of a string is
  that it is not empty.
\<close>

definition init_mqtt ::
  "config \<Rightarrow> exn option \<Rightarrow> session_state
     \<Rightarrow> (bool \<times> session_state \<times> effect list) outcome" where
  "init_mqtt cfg connect_result s =
     (case mqtt_client s of
        Some c \<Rightarrow> Returns (True, s, [])
      | None \<Rightarrow>
          (let client = \<lparr>cb_on_connect = False, cb_on_disconnect = False,
                         cb_on_message = False, username_pw = None\<rparr>;
               client = client\<lparr>cb_on_connect := True\<rparr>;
               client = client\<lparr>cb_on_disconnect := True\<rparr>;
               client = client\<lparr>cb_on_message := True\<rparr>;
               client =
                 (if MQTT_USERNAME cfg \<noteq> [] \<and> MQTT_PASSWORD cfg \<noteq> []
                  then client\<lparr>username_pw := Some (MQTT_USERNAME cfg, MQTT_PASSWORD cfg)\<rparr>
                  else client)
           in case connect_result of
                None \<Rightarrow>
                  Returns (True, s\<lparr>mqtt_client := Some client\<rparr>,
                           [Connect client (MQTT_BROKER cfg) (MQTT_PORT cfg) 60, Loop_start])
              | Some e \<Rightarrow>
                  if isinstance_Exception e
                  then Returns (False, s,
                           [Connect client (MQTT_BROKER cfg) (MQTT_PORT cfg) 60, St_error e])
                  else Raises e))"

section \<open>What the page reads\<close>

text \<open>Lines 217 to 222: the status bar reads the device, the gateway and the flag.\<close>

definition status_bar :: "session_state \<Rightarrow> pyval option \<times> pyval option \<times> bool" where
  "status_bar s = (latest_data s ''devEUI'', latest_data s ''gateway'', mqtt_connected s)"

text \<open>Line 239: the metrics are shown only once a message has been stored.\<close>

definition shows_waiting :: "session_state \<Rightarrow> bool" where
  "shows_waiting s = (\<not> data_received s)"

section \<open>What happens to a session\<close>

text \<open>
  Lines 185 to 189, the first half of the reconnect button: the stored client, if
  there is one, is stopped, disconnected and forgotten. Whether the client calls
  \<^verbatim>\<open>on_disconnect\<close> while \<^verbatim>\<open>disconnect()\<close> runs is the library's matter, so it is a
  parameter; the call would be on the script thread.
\<close>

definition reconnect_teardown :: "bool \<Rightarrow> session_state \<Rightarrow> session_state \<times> effect list" where
  "reconnect_teardown calls_back s =
     (case mqtt_client s of
        None \<Rightarrow> (s, [])
      | Some c \<Rightarrow>
          (let (s1, out) = (if calls_back then on_disconnect Script_thread 0 s else (s, []))
           in (s1\<lparr>mqtt_client := None\<rparr>, [Loop_stop, Disconnect] @ out)))"

text \<open>
  The events of a session after its first run: the script calls \<^verbatim>\<open>init_mqtt\<close> (line 209
  on every run, line 190 after the button), the button tears the client down, and the
  client calls back: \<^verbatim>\<open>on_connect\<close> and \<^verbatim>\<open>on_message\<close> on its loop thread,
  \<^verbatim>\<open>on_disconnect\<close> on either thread.
\<close>

datatype event =
    Init_mqtt config "exn option"
  | Teardown bool
  | Connack int
  | Disconnected thread int
  | Message "exn + pyval" datetime datetime

fun step :: "session_state \<Rightarrow> event \<Rightarrow> session_state" where
  "step s (Init_mqtt cfg connect_result) =
     (case init_mqtt cfg connect_result s of Returns (r, s', out) \<Rightarrow> s' | Raises e \<Rightarrow> s)"
| "step s (Teardown calls_back) = fst (reconnect_teardown calls_back s)"
| "step s (Connack rc) = fst (on_connect Loop_thread rc s)"
| "step s (Disconnected th rc) = fst (on_disconnect th rc s)"
| "step s (Message msg now1 now2) =
     (case on_message Loop_thread msg now1 now2 s of Returns (s', out) \<Rightarrow> s' | Raises e \<Rightarrow> s)"

section \<open>The sample a message describes\<close>

text \<open>The eight measurement keys that lines 126 to 133 read from \<^verbatim>\<open>object\<close>.\<close>

definition numeric_fields :: "string list" where
  "numeric_fields =
     [''voltage'', ''current'', ''power'', ''frequency'', ''powerFactor'', ''energy'',
      ''dailyKwh'', ''dailyCost'']"

definition dict_get :: "(string \<times> pyval) list \<Rightarrow> string \<Rightarrow> pyval \<Rightarrow> pyval" where
  "dict_get kvs k d = (case map_of kvs k of None \<Rightarrow> d | Some v \<Rightarrow> v)"



text \<open>
  The entry that lines 138 to 143 build for the history: the time and three of the
  measurements of \<^verbatim>\<open>object\<close>.
\<close>

definition history_entry :: "(string \<times> pyval) list \<Rightarrow> datetime \<Rightarrow> (string \<rightharpoonup> pyval)" where
  "history_entry obj now =
     [''timestamp'' \<mapsto> PDatetime now,
      ''power'' \<mapsto> dict_get obj ''power'' (PInt 0),
      ''voltage'' \<mapsto> dict_get obj ''voltage'' (PInt 0),
      ''current'' \<mapsto> dict_get obj ''current'' (PInt 0)]"

text \<open>
  None of the three effects of a stored message has occurred between two states: the
  time and the measurements of \<^verbatim>\<open>latest_data\<close>, the history and the flag are the same.
\<close>

definition sample_not_stored :: "session_state \<Rightarrow> session_state \<Rightarrow> bool" where
  "sample_not_stored s s' =
     (history s' = history s \<and> data_received s' = data_received s
      \<and> map (latest_data s') (''timestamp'' # numeric_fields)
          = map (latest_data s) (''timestamp'' # numeric_fields))"

section \<open>Basic facts\<close>

lemma isinstance_Exception_all: "isinstance_Exception e"
  by (cases e) simp_all

lemma in_keys_iff: "k \<in> fst ` set kvs \<longleftrightarrow> map_of kvs k \<noteq> None"
  by (simp add: map_of_eq_None_iff)

lemma session_attr_loop: "seq (session_attr Loop_thread) f s = (Inl AttributeError, s)"
  by (simp add: seq_def session_attr_def)

lemma session_attr_script: "seq (session_attr Script_thread) f s = f () s"
  by (simp add: seq_def session_attr_def)

lemma seq_eval: "seq (eval r) f s = (case r of Inl e \<Rightarrow> (Inl e, s) | Inr v \<Rightarrow> f v s)"
  by (simp add: seq_def eval_def split: sum.split)

lemma seq_keeps_state:
  assumes "\<And>s. snd (m s) = s" and "\<And>v s. snd (f v s) = s"
  shows "snd (seq m f s) = s"
proof -
  obtain r s1 where run: "m s = (r, s1)" by (cases "m s")
  with assms(1) [of s] have "s1 = s" by simp
  with run assms(2) show ?thesis
    by (cases r) (simp_all add: seq_def)
qed

lemma loop_set_latest: "snd (set_latest Loop_thread k v s) = s"
  by (simp add: set_latest_def session_attr_loop)

lemma keeps_eval: "snd (eval r s) = s"
  by (simp add: eval_def)

lemma keeps_skip: "snd (skip s) = s"
  by (simp add: skip_def)

lemma keeps_if:
  "(c \<Longrightarrow> snd (a s) = s) \<Longrightarrow> (\<not> c \<Longrightarrow> snd (b s) = s) \<Longrightarrow> snd ((if c then a else b) s) = s"
  by simp

lemma loop_session_attr_seq: "snd (seq (session_attr Loop_thread) f s) = s"
  by (simp add: session_attr_loop)

lemma loop_device_info: "snd (extract_device_info Loop_thread p s) = s"
  unfolding extract_device_info_def
  by (intro seq_keeps_state keeps_if keeps_eval keeps_skip loop_set_latest)

lemma loop_signal_info: "snd (extract_signal_info Loop_thread p s) = s"
  unfolding extract_signal_info_def
  by (intro seq_keeps_state keeps_if keeps_eval keeps_skip loop_set_latest)

lemma loop_object_data: "snd (extract_object_data Loop_thread p now1 now2 s) = s"
  unfolding extract_object_data_def
  by (intro seq_keeps_state keeps_if keeps_eval keeps_skip loop_session_attr_seq)

lemma loop_on_message_try: "snd (on_message_try Loop_thread msg now1 now2 s) = s"
  unfolding on_message_try_def
  by (intro seq_keeps_state keeps_eval loop_device_info loop_signal_info loop_object_data)

lemma on_message_loop_thread:
  "\<exists>out. on_message Loop_thread msg now1 now2 s = Returns (s, out)"
proof -
  obtain r s' where run: "on_message_try Loop_thread msg now1 now2 s = (r, s')"
    by (cases "on_message_try Loop_thread msg now1 now2 s")
  with loop_on_message_try [of msg now1 now2 s] have "s' = s" by simp
  with run show ?thesis
    by (cases r) (simp_all add: on_message_def isinstance_Exception_all)
qed


section \<open>Statements that store no sample\<close>

lemma not_stored_refl: "sample_not_stored s s"
  by (simp add: sample_not_stored_def)

lemma not_stored_trans:
  "sample_not_stored s s1 \<Longrightarrow> sample_not_stored s1 s2 \<Longrightarrow> sample_not_stored s s2"
  by (simp add: sample_not_stored_def)

lemma not_stored_store_latest:
  "k \<notin> set (''timestamp'' # numeric_fields) \<Longrightarrow> sample_not_stored s (snd (store_latest k v s))"
  by (auto simp: sample_not_stored_def store_latest_def numeric_fields_def)

lemma not_stored_seq:
  assumes m: "\<And>s. sample_not_stored s (snd (m s))"
    and f: "\<And>v s. sample_not_stored s (snd (f v s))"
  shows "sample_not_stored s (snd (seq m f s))"
proof -
  obtain r s1 where run: "m s = (r, s1)" by (cases "m s")
  with m [of s] have 1: "sample_not_stored s s1" by simp
  show ?thesis
  proof (cases r)
    case (Inl e)
    with run 1 show ?thesis by (simp add: seq_def)
  next
    case (Inr v)
    with run have "seq m f s = f v s1" by (simp add: seq_def)
    with f [of s1 v] 1 show ?thesis by (simp add: not_stored_trans)
  qed
qed

lemma not_stored_eval: "sample_not_stored s (snd (eval r s))"
  by (simp add: eval_def not_stored_refl)

lemma not_stored_skip: "sample_not_stored s (snd (skip s))"
  by (simp add: skip_def not_stored_refl)

lemma not_stored_session_attr: "sample_not_stored s (snd (session_attr th s))"
  by (cases th) (simp_all add: session_attr_def not_stored_refl)

lemma not_stored_if:
  "(c \<Longrightarrow> sample_not_stored s (snd (a s))) \<Longrightarrow> (\<not> c \<Longrightarrow> sample_not_stored s (snd (b s)))
     \<Longrightarrow> sample_not_stored s (snd ((if c then a else b) s))"
  by simp

lemma not_stored_set_latest:
  "k \<notin> set (''timestamp'' # numeric_fields) \<Longrightarrow> sample_not_stored s (snd (set_latest th k v s))"
  unfolding set_latest_def
  by (intro not_stored_seq not_stored_session_attr not_stored_store_latest)

lemma not_stored_device_info: "sample_not_stored s (snd (extract_device_info th p s))"
  unfolding extract_device_info_def
  by (intro not_stored_seq not_stored_if not_stored_eval not_stored_skip not_stored_set_latest)
     (simp add: numeric_fields_def)

lemma not_stored_signal_info: "sample_not_stored s (snd (extract_signal_info th p s))"
  unfolding extract_signal_info_def
  by (intro not_stored_seq not_stored_if not_stored_eval not_stored_skip not_stored_set_latest)
     (simp_all add: numeric_fields_def)


section \<open>The three blocks of \<^verbatim>\<open>on_message\<close> on the script thread\<close>



lemma object_data_dict:
  assumes "map_of kvs ''object'' = Some (PDict obj)"
  shows "extract_object_data Script_thread (PDict kvs) now1 now2 s =
     (Inr (), s\<lparr>latest_data := latest_data s ++ map_of
         [(''voltage'', dict_get obj ''voltage'' (PInt 0)),
          (''current'', dict_get obj ''current'' (PInt 0)),
          (''power'', dict_get obj ''power'' (PInt 0)),
          (''frequency'', dict_get obj ''frequency'' (PInt 0)),
          (''powerFactor'', dict_get obj ''powerFactor'' (PInt 0)),
          (''energy'', dict_get obj ''energy'' (PInt 0)),
          (''dailyKwh'', dict_get obj ''dailyKwh'' (PInt 0)),
          (''dailyCost'', dict_get obj ''dailyCost'' (PInt 0)),
          (''timestamp'', PDatetime now1)],
        history := deque_append (history s) (history_entry obj now2),
        data_received := True\<rparr>)"
  using assms
  by (simp add: extract_object_data_def seq_def eval_def session_attr_def update_latest_def
        history_append_def set_data_received_def in_keys_iff dict_get_def history_entry_def)

lemma object_data_script:
  assumes "extract_object_data Script_thread p now1 now2 s = (r, s3)"
  shows "s3 = s \<or> (\<exists>kvs obj. p = PDict kvs \<and> map_of kvs ''object'' = Some (PDict obj))"
proof (cases p)
  case (PDict kvs)
  show ?thesis
  proof (cases "map_of kvs ''object''")
    case None
    with assms PDict show ?thesis
      by (simp add: extract_object_data_def seq_eval skip_def in_keys_iff)
  next
    case (Some obj)
    with assms PDict show ?thesis
      by (cases obj)
         (simp_all add: extract_object_data_def seq_eval session_attr_script in_keys_iff)
  qed
qed (use assms in \<open>auto simp: extract_object_data_def seq_eval skip_def split: if_splits\<close>)





section \<open>The deque keeps the newest items\<close>

lemma deque_append_items:
  "items (deque_append d x) =
     (if maxlen d < Suc (length (items d)) then tl (items d @ [x]) else items d @ [x])"
  by (simp add: deque_append_def Let_def)

lemma deque_append_maxlen: "maxlen (deque_append d x) = maxlen d"
  by (simp add: deque_append_def Let_def)

lemma deque_append_bounded:
  "length (items d) \<le> maxlen d \<Longrightarrow> length (items (deque_append d x)) \<le> maxlen d"
  by (simp add: deque_append_items)

lemma foldl_deque_append:
  "length (items d) \<le> maxlen d \<Longrightarrow>
     items (foldl deque_append d xs) =
       drop (length (items d) + length xs - maxlen d) (items d @ xs)
     \<and> maxlen (foldl deque_append d xs) = maxlen d"
proof (induction xs arbitrary: d)
  case Nil
  then show ?case by simp
next
  case (Cons x xs)
  let ?d = "deque_append d x"
  have bounded: "length (items ?d) \<le> maxlen ?d"
    using Cons.prems by (simp add: deque_append_bounded deque_append_maxlen)
  note IH = Cons.IH [OF bounded]
  show ?case
  proof (cases "maxlen d < Suc (length (items d))")
    case True
    with Cons.prems have full: "length (items d) = maxlen d" by simp
    have "items ?d @ xs = tl (items d @ x # xs)"
      using True by (cases "items d") (simp_all add: deque_append_items)
    moreover have "length (items ?d) = maxlen d"
      using True full by (simp add: deque_append_items)
    ultimately have "items (foldl deque_append ?d xs) = drop (length xs) (tl (items d @ x # xs))"
      using IH by (simp add: deque_append_maxlen del: drop_append)
    also have "\<dots> = drop (Suc (length xs)) (items d @ x # xs)"
      by (simp only: drop_Suc)
    also have "Suc (length xs) = length (items d) + length (x # xs) - maxlen d"
      using full by simp
    finally show ?thesis
      using IH by (simp only: foldl_Cons deque_append_maxlen simp_thms)
  next
    case False
    then have "items ?d = items d @ [x]"
      by (simp add: deque_append_items)
    then show ?thesis
      using IH by (simp add: deque_append_maxlen)
  qed
qed

section \<open>What a message can do to the history\<close>

lemma seq_history:
  assumes m: "\<And>s. history (snd (m s)) = history s"
    and f: "\<And>v s. history (snd (f v s)) = history s
               \<or> (\<exists>e. history (snd (f v s)) = deque_append (history s) e \<and> dom e = K)"
  shows "history (snd (seq m f s)) = history s
       \<or> (\<exists>e. history (snd (seq m f s)) = deque_append (history s) e \<and> dom e = K)"
proof -
  obtain r s1 where run: "m s = (r, s1)" by (cases "m s")
  with m [of s] have h1: "history s1 = history s" by simp
  show ?thesis
  proof (cases r)
    case (Inl e)
    with run have "seq m f s = (Inl e, s1)" by (simp add: seq_def)
    with h1 show ?thesis by simp
  next
    case (Inr v)
    with run have "seq m f s = f v s1" by (simp add: seq_def)
    with f [of v s1] h1 show ?thesis by simp
  qed
qed

lemma history_eval: "history (snd (eval r s)) = history s"
  by (simp add: eval_def)

lemma history_device_info: "history (snd (extract_device_info th p s)) = history s"
  using not_stored_device_info [of s th p] by (simp add: sample_not_stored_def)

lemma history_signal_info: "history (snd (extract_signal_info th p s)) = history s"
  using not_stored_signal_info [of s th p] by (simp add: sample_not_stored_def)

lemma dom_history_entry:
  "dom (history_entry obj now) = {''timestamp'', ''power'', ''voltage'', ''current''}"
  by (auto simp: history_entry_def)

lemma history_object_data:
  "history (snd (extract_object_data th p now1 now2 s)) = history s
   \<or> (\<exists>e. history (snd (extract_object_data th p now1 now2 s)) = deque_append (history s) e
          \<and> dom e = {''timestamp'', ''power'', ''voltage'', ''current''})"
proof (cases th)
  case Loop_thread
  then show ?thesis
    by (simp add: loop_object_data)
next
  case Script_thread
  obtain r s3 where run: "extract_object_data Script_thread p now1 now2 s = (r, s3)"
    by (cases "extract_object_data Script_thread p now1 now2 s")
  from object_data_script [OF run] show ?thesis
  proof
    assume "s3 = s"
    with run Script_thread show ?thesis
      by simp
  next
    assume "\<exists>kvs obj. p = PDict kvs \<and> map_of kvs ''object'' = Some (PDict obj)"
    then obtain kvs obj where p: "p = PDict kvs"
      and obj: "map_of kvs ''object'' = Some (PDict obj)"
      by blast
    have "history (snd (extract_object_data th p now1 now2 s))
            = deque_append (history s) (history_entry obj now2)"
      by (simp add: Script_thread p object_data_dict [OF obj])
    with dom_history_entry [of obj now2] show ?thesis
      by blast
  qed
qed

lemma history_on_message_try:
  "history (snd (on_message_try th msg now1 now2 s)) = history s
   \<or> (\<exists>e. history (snd (on_message_try th msg now1 now2 s)) = deque_append (history s) e
          \<and> dom e = {''timestamp'', ''power'', ''voltage'', ''current''})"
  unfolding on_message_try_def
  by (intro seq_history history_eval history_device_info history_signal_info
        history_object_data)

section \<open>The status flag in the course of a session\<close>

lemma step_keeps_disconnected:
  assumes "mqtt_connected s = False"
  shows "mqtt_connected (step s ev) = False"
proof (cases ev)
  case (Init_mqtt cfg res)
  with assms show ?thesis
    by (cases res)
       (simp_all add: init_mqtt_def isinstance_Exception_all Let_def split: option.split)
next
  case (Teardown calls_back)
  with assms show ?thesis
    by (simp add: reconnect_teardown_def on_disconnect_def set_mqtt_connected_def
          split: option.split)
next
  case (Connack rc)
  with assms show ?thesis
    by (simp add: on_connect_def set_mqtt_connected_def)
next
  case (Disconnected th rc)
  with assms show ?thesis
    by (cases th) (simp_all add: on_disconnect_def set_mqtt_connected_def)
next
  case (Message msg now1 now2)
  obtain out where "on_message Loop_thread msg now1 now2 s = Returns (s, out)"
    using on_message_loop_thread by blast
  with assms Message show ?thesis
    by simp
qed

lemma foldl_step_disconnected:
  "mqtt_connected s = False \<Longrightarrow> mqtt_connected (foldl step s es) = False"
  by (induction es arbitrary: s) (simp_all add: step_keeps_disconnected)

section \<open>The properties\<close>

subsection \<open>C1: what a message writes\<close>




subsection \<open>C3: a payload that cannot be decoded\<close>

text \<open>
  C3: when decoding the payload fails, that is when \<^verbatim>\<open>json.loads(msg.payload.decode())\<close>
  raises, the callback returns with the session state it was given, every field of it
  unchanged, after printing the error; on either thread.
\<close>

theorem on_message_decode_error_keeps_state:
  "on_message th (Inl e) now1 now2 s = Returns (s, [Print_error e])"
  by (simp add: on_message_def on_message_try_def seq_def eval_def isinstance_Exception_all)

subsection \<open>C4: measurements absent from \<^verbatim>\<open>object\<close>\<close>

text \<open>
  C4 says that a payload with an \<^verbatim>\<open>object\<close> field decodes and is stored, the measurements
  it lacks being 0. The client delivers the message \<^verbatim>\<open>{"object": {"voltage": 231,
  "current": 2}}\<close> on its loop thread. There line 125 raises \<^verbatim>\<open>AttributeError\<close> when it reads
  \<^verbatim>\<open>st.session_state.latest_data\<close>, the handler prints it, and the session is left as it
  was at start: the voltage is still the 0 of the placeholder and no sample has been
  received.
\<close>

theorem on_message_loop_thread_drops_sample:
  "on_message Loop_thread
       (Inr (PDict [(''object'', PDict [(''voltage'', PInt 231), (''current'', PInt 2)])])) 1 2
       (initial_session_state 0)
     = Returns (initial_session_state 0, [Print_error AttributeError])
   \<and> latest_data (initial_session_state 0) ''voltage'' = Some (PInt 0)
   \<and> data_received (initial_session_state 0) = False"
  by (simp add: on_message_def on_message_try_def extract_device_info_def
        extract_signal_info_def extract_object_data_def seq_def eval_def skip_def
        session_attr_def initial_session_state_def)

subsection \<open>C5: the history keeps the newest entries\<close>

text \<open>
  C5: after \<open>N + k\<close> appends to an empty deque of capacity \<open>N\<close>, the deque holds exactly
  \<open>N\<close> items, the last \<open>N\<close> appended in the order of their arrival; the oldest one kept
  is the one appended at position \<open>k + 1\<close>. With the capacity 100 of line 73 and 105
  appends, that is the sixth.
\<close>

theorem deque_keeps_newest:
  assumes "length xs = N + k"
  shows "items (foldl deque_append (new_deque N) xs) = drop k xs
       \<and> length (items (foldl deque_append (new_deque N) xs)) = N
       \<and> (0 < N \<longrightarrow> hd (items (foldl deque_append (new_deque N) xs)) = xs ! k)"
proof -
  have "items (foldl deque_append (new_deque N) xs) = drop k xs"
    using foldl_deque_append [of "new_deque N" xs] assms by (simp add: new_deque_def)
  moreover have "length (drop k xs) = N"
    using assms by simp
  moreover have "0 < N \<longrightarrow> hd (drop k xs) = xs ! k"
    using assms by (simp add: hd_drop_conv_nth)
  ultimately show ?thesis
    by simp
qed

theorem deque_keeps_newest_witness:
  "length [1..<106] = 100 + 5
   \<and> items (foldl deque_append (new_deque 100) [1..<106]) = [6..<106]
   \<and> length (items (foldl deque_append (new_deque 100) [1..<106])) = 100
   \<and> hd (items (foldl deque_append (new_deque 100) [1..<106])) = 6"
proof -
  have len: "length [1..<106] = 100 + 5"
    by simp
  have d: "drop 5 [1..<106] = [6..<106]"
    by (simp only: drop_upt) simp
  have n: "[1..<106] ! 5 = (6::nat)"
    by simp
  from deque_keeps_newest [OF len]
  have "items (foldl deque_append (new_deque 100) [1..<106]) = drop 5 [1..<106]"
    and "length (items (foldl deque_append (new_deque 100) [1..<106])) = 100"
    and "hd (items (foldl deque_append (new_deque 100) [1..<106])) = [1..<106] ! 5"
    by simp_all
  with len d n show ?thesis
    by (simp only: simp_thms)
qed

subsection \<open>C6: the session state at start\<close>

text \<open>
  C6, as stated: at process start the store holds no latest sample (\<^verbatim>\<open>latest = None\<close>).
  The session state has no such absent value: lines 58 to 72 fill \<^verbatim>\<open>latest_data\<close> with a
  placeholder reading, and the status bar of lines 217 to 219 shows its device and
  gateway before any message has arrived.
\<close>

theorem initial_latest_data_counterexample:
  "latest_data (initialize 0 None) ''voltage'' = Some (PInt 0)
   \<and> latest_data (initialize 0 None) ''devEUI'' = Some (PStr ''--'')
   \<and> status_bar (initialize 0 None) = (Some (PStr ''--''), Some (PStr ''--''), False)"
  by (simp add: status_bar_def initialize_def initial_session_state_def)

text \<open>
  C6, amended: the first run of the script creates the session state with
  \<^verbatim>\<open>mqtt_connected\<close> false, \<^verbatim>\<open>data_received\<close> false, no client, an empty history of capacity
  100, and \<^verbatim>\<open>latest_data\<close> a placeholder reading: the eight measurements, \<^verbatim>\<open>rssi\<close> and \<^verbatim>\<open>snr\<close>
  are 0, \<^verbatim>\<open>devEUI\<close> and \<^verbatim>\<open>gateway\<close> are \<^verbatim>\<open>"--"\<close>, the timestamp is the time of creation. The
  page shows its waiting notice in that state.
\<close>

theorem initial_session_state_fields:
  "mqtt_connected (initialize now None) = False
   \<and> data_received (initialize now None) = False
   \<and> mqtt_client (initialize now None) = None
   \<and> history (initialize now None) = new_deque 100
   \<and> items (history (initialize now None)) = []
   \<and> latest_data (initialize now None) =
       [''voltage'' \<mapsto> PInt 0, ''current'' \<mapsto> PInt 0, ''power'' \<mapsto> PInt 0,
        ''frequency'' \<mapsto> PInt 0, ''powerFactor'' \<mapsto> PInt 0, ''energy'' \<mapsto> PInt 0,
        ''dailyKwh'' \<mapsto> PInt 0, ''dailyCost'' \<mapsto> PInt 0,
        ''timestamp'' \<mapsto> PDatetime now, ''rssi'' \<mapsto> PInt 0, ''snr'' \<mapsto> PInt 0,
        ''devEUI'' \<mapsto> PStr ''--'', ''gateway'' \<mapsto> PStr ''--'']
   \<and> shows_waiting (initialize now None)"
  by (simp add: initialize_def initial_session_state_def new_deque_def shows_waiting_def)

subsection \<open>C7: a connection attempt that fails\<close>

text \<open>
  C7: let \<open>s\<close> be the state of a session after any sequence of its events. An attempt
  of \<^verbatim>\<open>init_mqtt\<close> in \<open>s\<close> in which \<^verbatim>\<open>client.connect\<close> raises returns \<^verbatim>\<open>False\<close> without raising
  and leaves the state \<open>s\<close>; a connection that the broker refuses reaches \<^verbatim>\<open>on_connect\<close>
  on the loop thread with a nonzero code, which returns and leaves the state \<open>s\<close>. So
  \<^verbatim>\<open>latest_data\<close>, the history and \<^verbatim>\<open>data_received\<close> are unchanged by the failed attempt, and
  the status flag of \<open>s\<close> is false: the session is not left connected.
\<close>

theorem failed_connect_attempt:
  assumes "s = foldl step (initialize now None) es"
  shows "(mqtt_client s = None \<longrightarrow> (\<exists>out. init_mqtt cfg (Some e) s = Returns (False, s, out)))
       \<and> (rc \<noteq> 0 \<longrightarrow> (\<exists>out. on_connect Loop_thread rc s = (s, out)))
       \<and> mqtt_connected s = False"
proof -
  have "mqtt_connected (initialize now None) = False"
    by (simp add: initialize_def initial_session_state_def)
  with assms have "mqtt_connected s = False"
    by (simp add: foldl_step_disconnected)
  moreover have "mqtt_client s = None \<longrightarrow> (\<exists>out. init_mqtt cfg (Some e) s = Returns (False, s, out))"
    by (simp add: init_mqtt_def isinstance_Exception_all Let_def)
  moreover have "rc \<noteq> 0 \<longrightarrow> (\<exists>out. on_connect Loop_thread rc s = (s, out))"
    by (simp add: on_connect_def set_mqtt_connected_def)
  ultimately show ?thesis
    by (intro conjI)
qed

theorem failed_connect_attempt_witness:
  "initial_session_state 0
     = foldl step (initialize 0 None)
         [Init_mqtt \<lparr>MQTT_BROKER = ''localhost'', MQTT_PORT = 1883,
                     MQTT_USERNAME = [], MQTT_PASSWORD = []\<rparr> None,
          Connack 0, Teardown True]
   \<and> mqtt_client (initial_session_state 0) = None
   \<and> (5::int) \<noteq> 0
   \<and> (\<exists>out. init_mqtt \<lparr>MQTT_BROKER = ''localhost'', MQTT_PORT = 1883,
                         MQTT_USERNAME = [], MQTT_PASSWORD = []\<rparr>
               (Some OSError) (initial_session_state 0)
             = Returns (False, initial_session_state 0, out))
   \<and> (\<exists>out. on_connect Loop_thread 5 (initial_session_state 0) = (initial_session_state 0, out))
   \<and> mqtt_connected (initial_session_state 0) = False"
proof -
  have run: "initial_session_state 0
     = foldl step (initialize 0 None)
         [Init_mqtt \<lparr>MQTT_BROKER = ''localhost'', MQTT_PORT = 1883,
                     MQTT_USERNAME = [], MQTT_PASSWORD = []\<rparr> None,
          Connack 0, Teardown True]"
    by (simp add: initialize_def initial_session_state_def init_mqtt_def on_connect_def
          set_mqtt_connected_def reconnect_teardown_def on_disconnect_def Let_def)
  have h: "mqtt_client (initial_session_state 0) = None"
    by (simp add: initial_session_state_def)
  have rc: "(5::int) \<noteq> 0"
    by simp
  from failed_connect_attempt [OF run, of _ OSError 5] h rc
  have "\<exists>out. init_mqtt \<lparr>MQTT_BROKER = ''localhost'', MQTT_PORT = 1883,
                         MQTT_USERNAME = [], MQTT_PASSWORD = []\<rparr>
               (Some OSError) (initial_session_state 0)
             = Returns (False, initial_session_state 0, out)"
    and "\<exists>out. on_connect Loop_thread 5 (initial_session_state 0) = (initial_session_state 0, out)"
    and "mqtt_connected (initial_session_state 0) = False"
    by blast+
  with run h rc show ?thesis
    by (intro conjI)
qed

subsection \<open>C8: the message callback returns\<close>

text \<open>
  C8: whatever the payload is, parsed or not and of whatever shape, \<^verbatim>\<open>on_message\<close>
  returns on either thread; no exception leaves it. It has printed nothing, or the one
  exception that its handler caught.
\<close>

theorem on_message_returns:
  "\<exists>s' out. on_message th msg now1 now2 s = Returns (s', out)
             \<and> (out = [] \<or> (\<exists>e. out = [Print_error e]))"
proof -
  obtain r s' where run: "on_message_try th msg now1 now2 s = (r, s')"
    by (cases "on_message_try th msg now1 now2 s")
  show ?thesis
  proof (cases r)
    case (Inl e)
    with run have "on_message th msg now1 now2 s = Returns (s', [Print_error e])"
      by (simp add: on_message_def isinstance_Exception_all)
    then show ?thesis
      by blast
  next
    case (Inr u)
    with run have "on_message th msg now1 now2 s = Returns (s', [])"
      by (simp add: on_message_def)
    then show ?thesis
      by blast
  qed
qed

subsection \<open>C9: the entries of the history\<close>

text \<open>
  C9: a call of \<^verbatim>\<open>on_message\<close>, on either thread, leaves the history as it was or appends
  one entry to it, and the keys of an appended entry are exactly \<^verbatim>\<open>timestamp\<close>, \<^verbatim>\<open>power\<close>,
  \<^verbatim>\<open>voltage\<close> and \<^verbatim>\<open>current\<close>: the frequency, power factor, energy, daily energy and cost,
  signal readings, device and gateway of the sample are not in it.
\<close>

theorem history_entry_keys:
  "\<exists>s' out. on_message th msg now1 now2 s = Returns (s', out)
     \<and> (history s' = history s
        \<or> (\<exists>e. history s' = deque_append (history s) e
               \<and> dom e = {''timestamp'', ''power'', ''voltage'', ''current''}))"
proof -
  obtain r s' where run: "on_message_try th msg now1 now2 s = (r, s')"
    by (cases "on_message_try th msg now1 now2 s")
  then have "\<exists>out. on_message th msg now1 now2 s = Returns (s', out)"
    by (cases r) (simp_all add: on_message_def isinstance_Exception_all)
  moreover have "history s' = history s
        \<or> (\<exists>e. history s' = deque_append (history s) e
               \<and> dom e = {''timestamp'', ''power'', ''voltage'', ''current''})"
    using history_on_message_try [of th msg now1 now2 s] by (simp only: run snd_conv)
  ultimately show ?thesis
    by (elim exE) (intro exI conjI, assumption+)
qed

subsection \<open>C10: credentials of a connection attempt\<close>

text \<open>
  C10: when \<^verbatim>\<open>init_mqtt\<close> makes an attempt, the client it connects with carries the
  username and password exactly when both are non-empty; with one of them empty, or
  both, the attempt is anonymous.
\<close>

theorem init_mqtt_credentials:
  assumes "mqtt_client s = None"
  shows "\<exists>r s' c rest.
           init_mqtt cfg res s
             = Returns (r, s', Connect c (MQTT_BROKER cfg) (MQTT_PORT cfg) 60 # rest)
         \<and> username_pw c =
             (if MQTT_USERNAME cfg \<noteq> [] \<and> MQTT_PASSWORD cfg \<noteq> []
              then Some (MQTT_USERNAME cfg, MQTT_PASSWORD cfg) else None)"
  using assms
  by (cases res) (auto simp: init_mqtt_def isinstance_Exception_all Let_def)

theorem init_mqtt_credentials_witness:
  "mqtt_client (initial_session_state 0) = None
   \<and> (\<exists>r s' c rest.
         init_mqtt \<lparr>MQTT_BROKER = ''broker.local'', MQTT_PORT = 1883,
                    MQTT_USERNAME = ''meter'', MQTT_PASSWORD = []\<rparr>
             None (initial_session_state 0)
           = Returns (r, s', Connect c ''broker.local'' 1883 60 # rest)
         \<and> username_pw c = None)
   \<and> (\<exists>r s' c rest.
         init_mqtt \<lparr>MQTT_BROKER = ''broker.local'', MQTT_PORT = 1883,
                    MQTT_USERNAME = ''meter'', MQTT_PASSWORD = ''s3cret''\<rparr>
             None (initial_session_state 0)
           = Returns (r, s', Connect c ''broker.local'' 1883 60 # rest)
         \<and> username_pw c = Some (''meter'', ''s3cret''))"
proof -
  have h: "mqtt_client (initial_session_state 0) = None"
    by (simp add: initial_session_state_def)
  from init_mqtt_credentials [OF h, of
      "\<lparr>MQTT_BROKER = ''broker.local'', MQTT_PORT = 1883,
        MQTT_USERNAME = ''meter'', MQTT_PASSWORD = []\<rparr>" None]
  have one: "\<exists>r s' c rest.
         init_mqtt \<lparr>MQTT_BROKER = ''broker.local'', MQTT_PORT = 1883,
                    MQTT_USERNAME = ''meter'', MQTT_PASSWORD = []\<rparr>
             None (initial_session_state 0)
           = Returns (r, s', Connect c ''broker.local'' 1883 60 # rest)
         \<and> username_pw c = None"
    by simp
  from init_mqtt_credentials [OF h, of
      "\<lparr>MQTT_BROKER = ''broker.local'', MQTT_PORT = 1883,
        MQTT_USERNAME = ''meter'', MQTT_PASSWORD = ''s3cret''\<rparr>" None]
  have both: "\<exists>r s' c rest.
         init_mqtt \<lparr>MQTT_BROKER = ''broker.local'', MQTT_PORT = 1883,
                    MQTT_USERNAME = ''meter'', MQTT_PASSWORD = ''s3cret''\<rparr>
             None (initial_session_state 0)
           = Returns (r, s', Connect c ''broker.local'' 1883 60 # rest)
         \<and> username_pw c = Some (''meter'', ''s3cret'')"
    by simp
  from h one both show ?thesis
    by (intro conjI)
qed

end
